theory Spec2Isabelle
  imports Complex_Main
begin

section \<open>Go values used by the scoring code\<close>

subsection \<open>float64\<close>

text \<open>
  A \<open>float64\<close> is one of: a finite value, negative zero, the two infinities, or NaN.
  A finite value is represented by the real number it denotes (\<open>Fin 0\<close> is positive zero),
  and arithmetic on finite values is exact: rounding to 53 bits, overflow and underflow of
  arithmetic results are abstracted away. The special values follow IEEE 754, which is what
  decides the comparisons and the divisions by zero that the scoring code performs.
\<close>

datatype f64 = Fin real | NegZero | PInf | NInf | NaN

fun is_nan :: "f64 \<Rightarrow> bool" where
  "is_nan NaN = True"
| "is_nan _ = False"

fun is_inf :: "f64 \<Rightarrow> bool" where
  "is_inf PInf = True"
| "is_inf NInf = True"
| "is_inf _ = False"

fun is_zero :: "f64 \<Rightarrow> bool" where
  "is_zero (Fin x) = (x = 0)"
| "is_zero NegZero = True"
| "is_zero _ = False"

text \<open>The sign bit.\<close>

fun signbit :: "f64 \<Rightarrow> bool" where
  "signbit (Fin x) = (x < 0)"
| "signbit NegZero = True"
| "signbit NInf = True"
| "signbit _ = False"

text \<open>The real number denoted by a value that is neither an infinity nor NaN.\<close>

fun rv :: "f64 \<Rightarrow> real" where
  "rv (Fin x) = x"
| "rv _ = 0"

definition zero_of :: "bool \<Rightarrow> f64" where
  "zero_of neg = (if neg then NegZero else Fin 0)"

definition inf_of :: "bool \<Rightarrow> f64" where
  "inf_of neg = (if neg then NInf else PInf)"

text \<open>Position on the extended real line; NaN has none, so every comparison with it is false.\<close>

fun ekey :: "f64 \<Rightarrow> (int \<times> real) option" where
  "ekey NaN = None"
| "ekey NInf = Some (-1, 0)"
| "ekey PInf = Some (1, 0)"
| "ekey NegZero = Some (0, 0)"
| "ekey (Fin x) = Some (0, x)"

definition flt :: "f64 \<Rightarrow> f64 \<Rightarrow> bool" where
  "flt a b = (case (ekey a, ekey b) of
                (Some (i, x), Some (j, y)) \<Rightarrow> i < j \<or> (i = j \<and> x < y)
              | _ \<Rightarrow> False)"

definition fle :: "f64 \<Rightarrow> f64 \<Rightarrow> bool" where
  "fle a b = (case (ekey a, ekey b) of
                (Some (i, x), Some (j, y)) \<Rightarrow> i < j \<or> (i = j \<and> x \<le> y)
              | _ \<Rightarrow> False)"

definition feq :: "f64 \<Rightarrow> f64 \<Rightarrow> bool" where
  "feq a b = (case (ekey a, ekey b) of
                (Some (i, x), Some (j, y)) \<Rightarrow> i = j \<and> x = y
              | _ \<Rightarrow> False)"

definition fgt :: "f64 \<Rightarrow> f64 \<Rightarrow> bool" where
  "fgt a b = flt b a"

definition fge :: "f64 \<Rightarrow> f64 \<Rightarrow> bool" where
  "fge a b = fle b a"

fun fneg :: "f64 \<Rightarrow> f64" where
  "fneg (Fin x) = (if x = 0 then NegZero else Fin (- x))"
| "fneg NegZero = Fin 0"
| "fneg PInf = NInf"
| "fneg NInf = PInf"
| "fneg NaN = NaN"

definition fadd :: "f64 \<Rightarrow> f64 \<Rightarrow> f64" where
  "fadd a b =
     (if is_nan a \<or> is_nan b then NaN
      else if is_inf a \<and> is_inf b then (if a = b then a else NaN)
      else if is_inf a then a
      else if is_inf b then b
      else if a = NegZero \<and> b = NegZero then NegZero
      else Fin (rv a + rv b))"

definition fsub :: "f64 \<Rightarrow> f64 \<Rightarrow> f64" where
  "fsub a b = fadd a (fneg b)"

definition fmul :: "f64 \<Rightarrow> f64 \<Rightarrow> f64" where
  "fmul a b =
     (if is_nan a \<or> is_nan b then NaN
      else if (is_inf a \<and> is_zero b) \<or> (is_zero a \<and> is_inf b) then NaN
      else if is_inf a \<or> is_inf b then inf_of (signbit a \<noteq> signbit b)
      else if is_zero a \<or> is_zero b then zero_of (signbit a \<noteq> signbit b)
      else Fin (rv a * rv b))"

definition fdiv :: "f64 \<Rightarrow> f64 \<Rightarrow> f64" where
  "fdiv a b =
     (if is_nan a \<or> is_nan b then NaN
      else if (is_inf a \<and> is_inf b) \<or> (is_zero a \<and> is_zero b) then NaN
      else if is_inf a \<or> is_zero b then inf_of (signbit a \<noteq> signbit b)
      else if is_inf b \<or> is_zero a then zero_of (signbit a \<noteq> signbit b)
      else Fin (rv a / rv b))"

text \<open>
  \<open>math.Max\<close>: \<open>+Inf\<close> wins over everything, then NaN; of two zeros the positive one is
  returned; otherwise the larger argument.
\<close>

definition Max_f64 :: "f64 \<Rightarrow> f64 \<Rightarrow> f64" where
  "Max_f64 x y =
     (if x = PInf \<or> y = PInf then PInf
      else if is_nan x \<or> is_nan y then NaN
      else if is_zero x \<and> is_zero y then (if signbit x then y else x)
      else if fgt x y then x else y)"

text \<open>The conversion \<open>float64(n)\<close> of an \<open>int\<close>.\<close>

definition float64_of_int :: "int \<Rightarrow> f64" where
  "float64_of_int n = Fin (of_int n)"

subsection \<open>Strings\<close>

text \<open>
  A Go string is a sequence of bytes; text is UTF-8. The no-break space U+00A0 is the two
  bytes \<open>0xC2 0xA0\<close>.
\<close>

definition byte :: "char \<Rightarrow> nat" where
  "byte c = of_char c"

definition nbsp :: string where
  "nbsp = [CHR 0xC2, CHR 0xA0]"

fun HasPrefix :: "string \<Rightarrow> string \<Rightarrow> bool" where
  "HasPrefix s [] = True"
| "HasPrefix [] (p # ps) = False"
| "HasPrefix (c # cs) (p # ps) = (c = p \<and> HasPrefix cs ps)"

text \<open>\<open>strings.Contains\<close>.\<close>

fun Contains :: "string \<Rightarrow> string \<Rightarrow> bool" where
  "Contains [] sub = (sub = [])"
| "Contains (c # cs) sub = (HasPrefix (c # cs) sub \<or> Contains cs sub)"

text \<open>
  \<open>strings.ReplaceAll\<close> for a non-empty pattern: the non-overlapping occurrences are
  replaced from left to right. Every call in the program passes a non-empty literal pattern;
  the first equation only makes the function total.
\<close>

fun ReplaceAll :: "string \<Rightarrow> string \<Rightarrow> string \<Rightarrow> string" where
  "ReplaceAll s [] new = s"
| "ReplaceAll [] (p # ps) new = []"
| "ReplaceAll (c # cs) (p # ps) new =
     (if HasPrefix (c # cs) (p # ps)
      then new @ ReplaceAll (drop (length ps) cs) (p # ps) new
      else c # ReplaceAll cs (p # ps) new)"

text \<open>
  \<open>strings.TrimSpace\<close> removes leading and trailing Unicode white space. These are the
  UTF-8 encodings of the code points with the White_Space property: the six ASCII ones,
  U+0085, U+00A0, U+1680, U+2000 to U+200A, U+2028, U+2029, U+202F, U+205F and U+3000.
\<close>

definition space_encodings :: "string list" where
  "space_encodings =
     [[CHR 0x09], [CHR 0x0A], [CHR 0x0B], [CHR 0x0C], [CHR 0x0D], [CHR 0x20],
      [CHR 0xC2, CHR 0x85], [CHR 0xC2, CHR 0xA0],
      [CHR 0xE1, CHR 0x9A, CHR 0x80],
      [CHR 0xE2, CHR 0x80, CHR 0x80], [CHR 0xE2, CHR 0x80, CHR 0x81],
      [CHR 0xE2, CHR 0x80, CHR 0x82], [CHR 0xE2, CHR 0x80, CHR 0x83],
      [CHR 0xE2, CHR 0x80, CHR 0x84], [CHR 0xE2, CHR 0x80, CHR 0x85],
      [CHR 0xE2, CHR 0x80, CHR 0x86], [CHR 0xE2, CHR 0x80, CHR 0x87],
      [CHR 0xE2, CHR 0x80, CHR 0x88], [CHR 0xE2, CHR 0x80, CHR 0x89],
      [CHR 0xE2, CHR 0x80, CHR 0x8A],
      [CHR 0xE2, CHR 0x80, CHR 0xA8], [CHR 0xE2, CHR 0x80, CHR 0xA9],
      [CHR 0xE2, CHR 0x80, CHR 0xAF], [CHR 0xE2, CHR 0x81, CHR 0x9F],
      [CHR 0xE3, CHR 0x80, CHR 0x80]]"

text \<open>The number of bytes of the white-space character that \<open>s\<close> starts with, 0 if none.\<close>

definition leading_space :: "string \<Rightarrow> nat" where
  "leading_space s =
     (case filter (HasPrefix s) space_encodings of [] \<Rightarrow> 0 | e # _ \<Rightarrow> length e)"

function TrimLeft_space :: "string \<Rightarrow> string" where
  "TrimLeft_space s =
     (if leading_space s = 0 \<or> s = [] then s else TrimLeft_space (drop (leading_space s) s))"
  by pat_completeness auto
termination
  by (relation "measure length") auto

text \<open>
  A white-space character at the end of \<open>s\<close> is one at the start of the reversed string,
  with its bytes reversed.
\<close>

definition trailing_space :: "string \<Rightarrow> nat" where
  "trailing_space s =
     (case filter (\<lambda>e. HasPrefix (rev s) (rev e)) space_encodings of
        [] \<Rightarrow> 0 | e # _ \<Rightarrow> length e)"

function TrimRight_space :: "string \<Rightarrow> string" where
  "TrimRight_space s =
     (if trailing_space s = 0 \<or> s = [] then s
      else TrimRight_space (take (length s - trailing_space s) s))"
  by pat_completeness auto
termination
  by (relation "measure length") auto

definition TrimSpace :: "string \<Rightarrow> string" where
  "TrimSpace s = TrimRight_space (TrimLeft_space s)"

subsection \<open>strconv.ParseFloat\<close>

text \<open>
  \<open>strconv.ParseFloat(s, 64)\<close> belongs to the Go standard library. The model follows its
  documented grammar and its implementation: \<open>special\<close> recognises the infinities and NaN,
  \<open>readFloat\<close> a decimal or hexadecimal literal (optional sign, digits with at most one
  point, optional exponent, underscores as in Go literals), and the whole string must be
  consumed. A syntax error returns 0; a value too large for a \<open>float64\<close> returns an
  infinity with a range error. The result of a successful parse is the exact value of the
  literal, not rounded to the nearest \<open>float64\<close> (see the remark on \<open>f64\<close>).
\<close>

datatype NumError = ErrSyntax | ErrRange

definition is_digit :: "char \<Rightarrow> bool" where
  "is_digit c = (48 \<le> byte c \<and> byte c \<le> 57)"

definition digit_val :: "char \<Rightarrow> nat" where
  "digit_val c = byte c - 48"

text \<open>The letters \<open>a\<close> to \<open>f\<close> in either case, and their value as hexadecimal digits.\<close>

definition is_hexletter :: "char \<Rightarrow> bool" where
  "is_hexletter c = ((97 \<le> byte c \<and> byte c \<le> 102) \<or> (65 \<le> byte c \<and> byte c \<le> 70))"

definition hexletter_val :: "char \<Rightarrow> nat" where
  "hexletter_val c = (if 97 \<le> byte c then byte c - 87 else byte c - 55)"

text \<open>\<open>lower(c) == l\<close> for a lower-case letter \<open>l\<close>: \<open>c\<close> is that letter in either case.\<close>

definition lower_is :: "char \<Rightarrow> char \<Rightarrow> bool" where
  "lower_is c l = (byte c = byte l \<or> byte c + 32 = byte l)"

text \<open>An upper-case ASCII letter is mapped to lower case, any other byte is kept.\<close>

definition ascii_lower :: "char \<Rightarrow> nat" where
  "ascii_lower c = (if 65 \<le> byte c \<and> byte c \<le> 90 then byte c + 32 else byte c)"

fun commonPrefixLenIgnoreCase :: "string \<Rightarrow> string \<Rightarrow> nat" where
  "commonPrefixLenIgnoreCase (c # s) (p # ps) =
     (if ascii_lower c = byte p then Suc (commonPrefixLenIgnoreCase s ps) else 0)"
| "commonPrefixLenIgnoreCase _ _ = 0"

definition special_inf :: "bool \<Rightarrow> nat \<Rightarrow> string \<Rightarrow> (f64 \<times> nat) option" where
  "special_inf neg nsign s =
     (let n = commonPrefixLenIgnoreCase s ''infinity'';
          n' = (if 3 < n \<and> n < 8 then 3 else n)
      in if n' = 3 \<or> n' = 8 then Some (inf_of neg, nsign + n') else None)"

text \<open>The value and the number of bytes consumed, when \<open>s\<close> starts with a special value.\<close>

definition special :: "string \<Rightarrow> (f64 \<times> nat) option" where
  "special s =
     (case s of
        [] \<Rightarrow> None
      | c # r \<Rightarrow>
          if c = CHR ''+'' \<or> c = CHR ''-'' then special_inf (c = CHR ''-'') 1 r
          else if c = CHR ''i'' \<or> c = CHR ''I'' then special_inf False 0 s
          else if c = CHR ''n'' \<or> c = CHR ''N'' then
            (if commonPrefixLenIgnoreCase s ''nan'' = 3 then Some (NaN, 3) else None)
          else None)"

text \<open>
  The digit loop of \<open>readFloat\<close>: \<open>mant\<close> is the integer written by the digits seen so
  far, \<open>nfrac\<close> the number of digits after the point.
\<close>

record float_scan =
  sawdot :: bool
  sawdigits :: bool
  underscores :: bool
  mant :: nat
  nfrac :: nat

fun scan_digits :: "bool \<Rightarrow> float_scan \<Rightarrow> string \<Rightarrow> float_scan \<times> string" where
  "scan_digits hex st [] = (st, [])"
| "scan_digits hex st (c # cs) =
     (if c = CHR ''_'' then scan_digits hex (st\<lparr>underscores := True\<rparr>) cs
      else if c = CHR ''.'' then
        (if sawdot st then (st, c # cs) else scan_digits hex (st\<lparr>sawdot := True\<rparr>) cs)
      else if is_digit c then
        scan_digits hex
          (st\<lparr>sawdigits := True,
              mant := mant st * (if hex then 16 else 10) + digit_val c,
              nfrac := nfrac st + (if sawdot st then 1 else 0)\<rparr>) cs
      else if hex \<and> is_hexletter c then
        scan_digits hex
          (st\<lparr>sawdigits := True,
              mant := mant st * 16 + hexletter_val c,
              nfrac := nfrac st + (if sawdot st then 1 else 0)\<rparr>) cs
      else (st, c # cs))"

text \<open>
  The exponent digits: underscores are skipped, and the exponent stops growing once it has
  reached 10000.
\<close>

fun scan_exp :: "nat \<Rightarrow> bool \<Rightarrow> string \<Rightarrow> nat \<times> bool \<times> string" where
  "scan_exp e us [] = (e, us, [])"
| "scan_exp e us (c # cs) =
     (if c = CHR ''_'' then scan_exp e True cs
      else if is_digit c then scan_exp (if e < 10000 then e * 10 + digit_val c else e) us cs
      else (e, us, c # cs))"

text \<open>
  \<open>underscoreOK\<close>: an underscore must separate digits, or follow a base prefix and
  precede a digit.
\<close>

datatype last_seen = AtStart | SawDigit | SawUnderscore | SawOther

fun underscore_loop :: "bool \<Rightarrow> last_seen \<Rightarrow> string \<Rightarrow> bool" where
  "underscore_loop hex i [] = (i \<noteq> SawUnderscore)"
| "underscore_loop hex i (c # cs) =
     (if is_digit c \<or> (hex \<and> is_hexletter c) then underscore_loop hex SawDigit cs
      else if c = CHR ''_'' then
        (if i \<noteq> SawDigit then False else underscore_loop hex SawUnderscore cs)
      else if i = SawUnderscore then False
      else underscore_loop hex SawOther cs)"

definition strip_sign :: "string \<Rightarrow> string" where
  "strip_sign s =
     (case s of c # r \<Rightarrow> (if c = CHR ''-'' \<or> c = CHR ''+'' then r else s) | [] \<Rightarrow> s)"

definition underscoreOK :: "string \<Rightarrow> bool" where
  "underscoreOK s =
     (case strip_sign s of
        c0 # c1 # r \<Rightarrow>
          if c0 = CHR ''0'' \<and> (lower_is c1 CHR ''b'' \<or> lower_is c1 CHR ''o'' \<or> lower_is c1 CHR ''x'')
          then underscore_loop (lower_is c1 CHR ''x'') SawDigit r
          else underscore_loop False AtStart (c0 # c1 # r)
      | t \<Rightarrow> underscore_loop False AtStart t)"

text \<open>
  What \<open>readFloat\<close> returns when it succeeds: the sign, whether the literal is
  hexadecimal, the mantissa as an integer, the exponent to apply to it (of 10, or of 2 for a
  hexadecimal literal), and the number of bytes consumed.
\<close>

record float_lit =
  neg :: bool
  hex :: bool
  mantissa :: nat
  exp :: int
  consumed :: nat

definition readFloat :: "string \<Rightarrow> float_lit option" where
  "readFloat s =
     (if s = [] then None
      else
        let ng = (hd s = CHR ''-'');
            s1 = strip_sign s;
            hx = (case s1 of c0 # c1 # _ # _ \<Rightarrow> c0 = CHR ''0'' \<and> lower_is c1 CHR ''x'' | _ \<Rightarrow> False);
            s2 = (if hx then drop 2 s1 else s1);
            (st, s3) = scan_digits hx
                         \<lparr>sawdot = False, sawdigits = False, underscores = False,
                          mant = 0, nfrac = 0\<rparr> s2;
            dp = - int (nfrac st) * (if hx then 4 else 1)
        in if \<not> sawdigits st then None
           else
             (case s3 of
                c # s4 \<Rightarrow>
                  if lower_is c (if hx then CHR ''p'' else CHR ''e'') then
                    (if s4 = [] then None
                     else
                       let esign = (if hd s4 = CHR ''-'' then - 1 else 1);
                           s5 = strip_sign s4
                       in if s5 = [] then None
                          else if \<not> is_digit (hd s5) then None
                          else
                            let (e, us, s6) = scan_exp 0 (underscores st) s5;
                                n = length s - length s6
                            in if us \<and> \<not> underscoreOK (take n s) then None
                               else Some \<lparr>neg = ng, hex = hx, mantissa = mant st,
                                          exp = dp + int e * esign, consumed = n\<rparr>)
                  else if hx then None
                  else
                    let n = length s - length s3
                    in if underscores st \<and> \<not> underscoreOK (take n s) then None
                       else Some \<lparr>neg = ng, hex = hx, mantissa = mant st, exp = dp, consumed = n\<rparr>
              | [] \<Rightarrow>
                  if hx then None
                  else if underscores st \<and> \<not> underscoreOK s then None
                  else Some \<lparr>neg = ng, hex = hx, mantissa = mant st, exp = dp,
                             consumed = length s\<rparr>))"

text \<open>
  The value of a literal. Anything at or above \<open>2^1024 - 2^970\<close>, the midpoint between the
  largest \<open>float64\<close> and \<open>2^1024\<close>, rounds to an infinity and is a range error.
  Anything at or below \<open>2^-1075\<close>, half the smallest positive \<open>float64\<close>, rounds to
  zero, which is not an error. In between the value is kept as it is written.
\<close>

definition scale :: "real \<Rightarrow> nat \<Rightarrow> int \<Rightarrow> real" where
  "scale m b e = (if 0 \<le> e then m * real b ^ nat e else m / real b ^ nat (- e))"

definition float_value :: "float_lit \<Rightarrow> f64 \<times> NumError option" where
  "float_value l =
     (if mantissa l = 0 then (zero_of (neg l), None)
      else
        let x = scale (real (mantissa l)) (if hex l then 2 else 10) (exp l)
        in if 2 ^ 1024 - 2 ^ 970 \<le> x then (inf_of (neg l), Some ErrRange)
           else if x \<le> 1 / 2 ^ 1075 then (zero_of (neg l), None)
           else (Fin (if neg l then - x else x), None))"

definition ParseFloat :: "string \<Rightarrow> f64 \<times> NumError option" where
  "ParseFloat s =
     (case special s of
        Some (v, n) \<Rightarrow> if n = length s then (v, None) else (Fin 0, Some ErrSyntax)
      | None \<Rightarrow>
          (case readFloat s of
             None \<Rightarrow> (Fin 0, Some ErrSyntax)
           | Some l \<Rightarrow>
               if consumed l = length s then float_value l else (Fin 0, Some ErrSyntax)))"

section \<open>Documents\<close>

text \<open>
  A stored record is an open-ended document. The value held by an \<open>interface{}\<close> is
  \<open>nil\<close>, a \<open>string\<close>, a \<open>float64\<close>, an \<open>int\<close>, an array (\<open>primitive.A\<close>), a nested
  document (\<open>bson.M\<close>), or a value of some other type (\<open>VOther\<close>: a bool, an int32, ...),
  which every type switch and type assertion of the program treats alike.

  A document is an association list; as in a Go map a key occurs once, so the first binding
  of a key is the binding and later ones are ignored.
\<close>

datatype bval =
    VNil
  | VString string
  | VFloat64 f64
  | VInt int
  | VOther
  | VArr "bval list"
  | VMap "(string \<times> bval) list"

type_synonym doc = "(string \<times> bval) list"

text \<open>\<open>m[key]\<close>: the value stored under the key, \<open>nil\<close> when there is none.\<close>

definition index_map :: "doc \<Rightarrow> string \<Rightarrow> bval" where
  "index_map m key = (case map_of m key of None \<Rightarrow> VNil | Some v \<Rightarrow> v)"


text \<open>Run-time panics: an index out of range, and a failed type assertion \<open>x.(T)\<close>.\<close>

datatype panic = IndexOutOfRange int | InterfaceConversion

definition and_then :: "panic + 'a \<Rightarrow> ('a \<Rightarrow> panic + 'b) \<Rightarrow> panic + 'b" where
  "and_then r f = (case r of Inl e \<Rightarrow> Inl e | Inr v \<Rightarrow> f v)"

text \<open>\<open>len(a)\<close>.\<close>

definition len :: "'a list \<Rightarrow> int" where
  "len a = int (length a)"

text \<open>\<open>a[i]\<close> on a slice.\<close>

definition index :: "bval list \<Rightarrow> int \<Rightarrow> panic + bval" where
  "index a i = (if 0 \<le> i \<and> i < len a then Inr (a ! nat i) else Inl (IndexOutOfRange i))"

text \<open>The type assertions \<open>v.(string)\<close> and \<open>v.(bson.M)\<close>.\<close>

definition assert_string :: "bval \<Rightarrow> panic + string" where
  "assert_string v = (case v of VString s \<Rightarrow> Inr s | _ \<Rightarrow> Inl InterfaceConversion)"

definition assert_M :: "bval \<Rightarrow> panic + doc" where
  "assert_M v = (case v of VMap m \<Rightarrow> Inr m | _ \<Rightarrow> Inl InterfaceConversion)"

section \<open>Numeric parsing of field values\<close>

definition toFloat :: "bval \<Rightarrow> f64" where
  "toFloat v =
     (case v of
        VString str \<Rightarrow>
          (let cleanStr = ReplaceAll str '','' []
           in if Contains cleanStr ''%'' then
                (let cleanStr' = ReplaceAll cleanStr ''%'' [];
                     (f, err) = ParseFloat cleanStr'
                 in if err \<noteq> None then Fin 0 else fdiv f (Fin 100))
              else
                (let (f, err) = ParseFloat cleanStr
                 in if err \<noteq> None then Fin 0 else f))
      | _ \<Rightarrow> Fin 0)"

definition parseFloat :: "bval \<Rightarrow> f64" where
  "parseFloat v =
     (case v of
        VString s \<Rightarrow> (let (f, err) = ParseFloat s in if err \<noteq> None then Fin 0 else f)
      | VFloat64 x \<Rightarrow> x
      | VInt n \<Rightarrow> float64_of_int n
      | _ \<Rightarrow> Fin 0)"

definition getMarketCapCategory :: "string \<Rightarrow> string" where
  "getMarketCapCategory marketCapValue =
     (let cleanMarketCapValue = ReplaceAll marketCapValue '','' [];
          (marketCap, err) = ParseFloat cleanMarketCapValue
      in if fge marketCap (Fin 20000) then ''Large Cap''
         else if fge marketCap (Fin 5000) \<and> flt marketCap (Fin 20000) then ''Mid Cap''
         else if flt marketCap (Fin 5000) then ''Small Cap''
         else ''Unknown Category'')"

section \<open>Nested lookup\<close>

text \<open>What the loop does to a key of the path before it indexes the current document.\<close>

definition normalize_key :: "string \<Rightarrow> string" where
  "normalize_key key =
     (let key1 = TrimSpace key
      in if Contains key1 ''+'' then ReplaceAll key1 '' +'' (nbsp @ ''+'') else key1)"

fun getNestedArrayField :: "doc \<Rightarrow> string list \<Rightarrow> bval list" where
  "getNestedArrayField current [] = []"
| "getNestedArrayField current (key # rest) =
     (let key' = normalize_key key
      in if rest = [] then
           (case index_map current key' of VArr result \<Rightarrow> result | _ \<Rightarrow> [])
         else
           (case index_map current key' of
              VMap result \<Rightarrow> getNestedArrayField result rest
            | _ \<Rightarrow> []))"

section \<open>Peer comparison\<close>

record Stock =
  Name :: string
  PE :: f64
  MarketCap :: f64
  DividendYield :: f64
  ROCE :: f64
  QuarterlySales :: f64
  QuarterlyProfit :: f64
  Cons' :: "string list"
  Pros :: "string list"

text \<open>The body of the loop over the peers: the six comparisons against one peer.\<close>

definition score_peer :: "Stock \<Rightarrow> f64 \<Rightarrow> doc \<Rightarrow> f64" where
  "score_peer stock peerScore peer =
     (let peerPE = parseFloat (index_map peer ''pe'');
          peerMarketCap = parseFloat (index_map peer ''market_cap'');
          peerDividendYield = parseFloat (index_map peer ''div_yield'');
          peerROCE = parseFloat (index_map peer ''roce'');
          peerQuarterlySales = parseFloat (index_map peer ''sales_qtr'');
          peerQuarterlyProfit = parseFloat (index_map peer ''np_qtr'');
          s1 = (if flt (PE stock) peerPE then fadd peerScore (Fin 10)
                else fadd peerScore (Max_f64 (Fin 0) (fsub (Fin 10) (fsub (PE stock) peerPE))));
          s2 = (if fgt (MarketCap stock) peerMarketCap then fadd s1 (Fin 5) else s1);
          s3 = (if fgt (DividendYield stock) peerDividendYield then fadd s2 (Fin 5) else s2);
          s4 = (if fgt (ROCE stock) peerROCE then fadd s3 (Fin 10) else s3);
          s5 = (if fgt (QuarterlySales stock) peerQuarterlySales then fadd s4 (Fin 5) else s4)
      in if fgt (QuarterlyProfit stock) peerQuarterlyProfit then fadd s5 (Fin 10) else s5)"

fun peers_loop :: "Stock \<Rightarrow> f64 \<Rightarrow> bval list \<Rightarrow> panic + f64" where
  "peers_loop stock peerScore [] = Inr peerScore"
| "peers_loop stock peerScore (peerRaw # rest) =
     (case assert_M peerRaw of
        Inl e \<Rightarrow> Inl e
      | Inr peer \<Rightarrow> peers_loop stock (score_peer stock peerScore peer) rest)"

text \<open>The comparison against the last record, with the smaller weights.\<close>

definition score_median :: "Stock \<Rightarrow> f64 \<Rightarrow> doc \<Rightarrow> f64" where
  "score_median stock peerScore median =
     (let medianPE = parseFloat (index_map median ''pe'');
          medianMarketCap = parseFloat (index_map median ''market_cap'');
          medianDividendYield = parseFloat (index_map median ''div_yield'');
          medianROCE = parseFloat (index_map median ''roce'');
          medianQuarterlySales = parseFloat (index_map median ''sales_qtr'');
          medianQuarterlyProfit = parseFloat (index_map median ''np_qtr'');
          s1 = (if flt (PE stock) medianPE then fadd peerScore (Fin 5)
                else fadd peerScore (Max_f64 (Fin 0) (fsub (Fin 5) (fsub (PE stock) medianPE))));
          s2 = (if fgt (MarketCap stock) medianMarketCap then fadd s1 (Fin 3) else s1);
          s3 = (if fgt (DividendYield stock) medianDividendYield then fadd s2 (Fin 3) else s2);
          s4 = (if fgt (ROCE stock) medianROCE then fadd s3 (Fin 5) else s3);
          s5 = (if fgt (QuarterlySales stock) medianQuarterlySales then fadd s4 (Fin 2) else s4)
      in if fgt (QuarterlyProfit stock) medianQuarterlyProfit then fadd s5 (Fin 5) else s5)"

text \<open>
  \<open>arr[:len(arr)-1]\<close> is the slice of all elements but the last; both it and the index
  \<open>len(arr)-1\<close> are in range once \<open>len(arr) < 2\<close> has been excluded.
\<close>

definition compareWithPeers :: "Stock \<Rightarrow> bval \<Rightarrow> panic + f64" where
  "compareWithPeers stock peers =
     (let medianScore = Fin 0 in
      case peers of
        VArr arr \<Rightarrow>
          if len arr < 2 then Inr (Fin 0)
          else
            and_then (peers_loop stock (Fin 0) (take (nat (len arr - 1)) arr)) (\<lambda>peerScore.
            and_then (index arr (len arr - 1)) (\<lambda>medianRaw.
            and_then (assert_M medianRaw) (\<lambda>median.
              let peerScore' = score_median stock peerScore median;
                  peerCount = len arr - 1
              in if peerCount > 0 then Inr (fdiv peerScore' (float64_of_int peerCount))
                 else Inr (fadd (fmul peerScore' (Fin 0.9)) (fmul medianScore (Fin 0.1))))))
      | _ \<Rightarrow> Inr (fadd (fmul (Fin 0) (Fin 0.9)) (fmul medianScore (Fin 0.1))))"

section \<open>Trend\<close>





section \<open>F-score\<close>

definition calculateRoa :: "string \<Rightarrow> string \<Rightarrow> f64" where
  "calculateRoa netProfit totalAssets =
     fdiv (toFloat (VString netProfit)) (toFloat (VString totalAssets))"

definition increaseInRoa :: "bval list \<Rightarrow> bval list \<Rightarrow> panic + bool" where
  "increaseInRoa netProfit totalAssets =
     and_then (index netProfit (len netProfit - 2)) (\<lambda>np2.
     and_then (assert_string np2) (\<lambda>np2s.
     and_then (index totalAssets (len totalAssets - 1)) (\<lambda>ta1.
     and_then (assert_string ta1) (\<lambda>ta1s.
       let currentYearRoa = calculateRoa np2s ta1s in
     and_then (index netProfit (len netProfit - 3)) (\<lambda>np3.
     and_then (assert_string np3) (\<lambda>np3s.
     and_then (index totalAssets (len totalAssets - 2)) (\<lambda>ta2.
     and_then (assert_string ta2) (\<lambda>ta2s.
       let previousYearRoa = calculateRoa np3s ta2s
       in Inr (fgt currentYearRoa previousYearRoa)))))))))"

text \<open>
  Each check of the F-score takes the score so far and returns it, incremented when the
  check passes. The checks are written one by one, in the order of the source, and the three
  sub-scores chain them.
\<close>

text \<open>1.1: is the return on assets positive? Guarded by both sequences being non-empty.\<close>

definition roa_positive_check :: "bval list \<Rightarrow> bval list \<Rightarrow> int \<Rightarrow> panic + int" where
  "roa_positive_check netProfit totalAssets score =
     (if len netProfit > 0 \<and> len totalAssets > 0 then
        and_then (index netProfit (len netProfit - 2)) (\<lambda>np2.
        and_then (assert_string np2) (\<lambda>np2s.
        and_then (index totalAssets (len totalAssets - 1)) (\<lambda>ta1.
        and_then (assert_string ta1) (\<lambda>ta1s.
          let roa = calculateRoa np2s ta1s
          in Inr (if fgt roa (Fin 0) then score + 1 else score)))))
      else Inr score)"

text \<open>1.2: did the cash from operating activities grow?\<close>

definition cash_flow_check :: "bval list \<Rightarrow> int \<Rightarrow> panic + int" where
  "cash_flow_check cashFlowOps score =
     (if len cashFlowOps > 1 then
        and_then (index cashFlowOps (len cashFlowOps - 1)) (\<lambda>c1.
        and_then (index cashFlowOps (len cashFlowOps - 2)) (\<lambda>c2.
          let currentCashFlow = toFloat c1; previousCashFlow = toFloat c2
          in Inr (if fgt currentCashFlow previousCashFlow then score + 1 else score)))
      else Inr score)"

text \<open>1.4: is the cash from operating activities higher than the net profit?\<close>

definition cash_vs_profit_check :: "bval list \<Rightarrow> bval list \<Rightarrow> int \<Rightarrow> panic + int" where
  "cash_vs_profit_check cashFlowOps netProfit score =
     (if len cashFlowOps > 0 \<and> len netProfit > 1 then
        and_then (index cashFlowOps (len cashFlowOps - 1)) (\<lambda>c1.
        and_then (index netProfit (len netProfit - 2)) (\<lambda>np2.
          let cashFlow = toFloat c1; profit = toFloat np2
          in Inr (if fgt cashFlow profit then score + 1 else score)))
      else Inr score)"

text \<open>Check 1.3 is the call of \<open>increaseInRoa\<close>, which has no guard.\<close>

definition calculateProfitabilityScore :: "doc \<Rightarrow> panic + int" where
  "calculateProfitabilityScore stock =
     (let score = 0;
          netProfit = getNestedArrayField stock [''profitLoss'', ''Net Profit +''];
          totalAssets = getNestedArrayField stock [''balanceSheet'', ''Total Assets'']
      in
      and_then (roa_positive_check netProfit totalAssets score) (\<lambda>score.
      let cashFlowOps =
            getNestedArrayField stock [''cashFlows'', ''Cash from Operating Activity +'']
      in
      and_then (cash_flow_check cashFlowOps score) (\<lambda>score.
      and_then (increaseInRoa netProfit totalAssets) (\<lambda>increased.
      let score = (if increased then score + 1 else score)
      in cash_vs_profit_check cashFlowOps netProfit score))))"

text \<open>2.1: did the ratio of borrowings to total assets not rise?\<close>

definition debt_ratio_check :: "bval list \<Rightarrow> bval list \<Rightarrow> int \<Rightarrow> panic + int" where
  "debt_ratio_check borrowings totalAssets score =
     (if len borrowings > 1 \<and> len totalAssets > 1 then
        and_then (index borrowings (len borrowings - 1)) (\<lambda>b1.
        and_then (index totalAssets (len totalAssets - 1)) (\<lambda>t1.
        and_then (index borrowings (len borrowings - 2)) (\<lambda>b2.
        and_then (index totalAssets (len totalAssets - 2)) (\<lambda>t2.
          let currentRatio = fdiv (toFloat b1) (toFloat t1);
              previousRatio = fdiv (toFloat b2) (toFloat t2)
          in Inr (if fle currentRatio previousRatio then score + 1 else score)))))
      else Inr score)"

text \<open>2.2: did the ratio of other assets to other liabilities rise?\<close>

definition current_ratio_check :: "bval list \<Rightarrow> bval list \<Rightarrow> int \<Rightarrow> panic + int" where
  "current_ratio_check otherAssets otherLiabilities score =
     (if len otherAssets > 1 \<and> len otherLiabilities > 1 then
        and_then (index otherAssets (len otherAssets - 1)) (\<lambda>a1.
        and_then (index otherLiabilities (len otherLiabilities - 1)) (\<lambda>l1.
        and_then (index otherAssets (len otherAssets - 2)) (\<lambda>a2.
        and_then (index otherLiabilities (len otherLiabilities - 2)) (\<lambda>l2.
          let currentRatio = fdiv (toFloat a1) (toFloat l1);
              previousRatio = fdiv (toFloat a2) (toFloat l2)
          in Inr (if fgt currentRatio previousRatio then score + 1 else score)))))
      else Inr score)"

text \<open>2.3: did the equity capital not rise?\<close>

definition equity_check :: "bval list \<Rightarrow> int \<Rightarrow> panic + int" where
  "equity_check equityCapital score =
     (if len equityCapital > 1 then
        and_then (index equityCapital (len equityCapital - 1)) (\<lambda>e1.
        and_then (index equityCapital (len equityCapital - 2)) (\<lambda>e2.
          let currentEquity = toFloat e1; previousEquity = toFloat e2
          in Inr (if fle currentEquity previousEquity then score + 1 else score)))
      else Inr score)"

definition calculateLeverageScore :: "doc \<Rightarrow> panic + int" where
  "calculateLeverageScore stock =
     (let score = 0;
          borrowings = getNestedArrayField stock [''balanceSheet'', ''Borrowings +''];
          totalAssets = getNestedArrayField stock [''balanceSheet'', ''Total Assets'']
      in
      and_then (debt_ratio_check borrowings totalAssets score) (\<lambda>score.
      let otherAssets = getNestedArrayField stock [''balanceSheet'', ''Other Assets +''];
          otherLiabilities =
            getNestedArrayField stock [''balanceSheet'', ''Other Liabilities +'']
      in
      and_then (current_ratio_check otherAssets otherLiabilities score) (\<lambda>score.
      let equityCapital = getNestedArrayField stock [''balanceSheet'', ''Equity Capital'']
      in equity_check equityCapital score)))"

text \<open>3.1: did the operating margin of the last full year rise?\<close>

definition opm_check :: "bval list \<Rightarrow> int \<Rightarrow> panic + int" where
  "opm_check opm score =
     (if len opm > 2 then
        and_then (index opm (len opm - 2)) (\<lambda>o2.
        and_then (index opm (len opm - 3)) (\<lambda>o3.
          let currentOpm = toFloat o2; previousOpm = toFloat o3
          in Inr (if fgt currentOpm previousOpm then score + 1 else score)))
      else Inr score)"

text \<open>3.2: did the ratio of sales to total assets rise?\<close>

definition asset_turnover_check :: "bval list \<Rightarrow> bval list \<Rightarrow> int \<Rightarrow> panic + int" where
  "asset_turnover_check sales totalAssets score =
     (if len sales > 2 \<and> len totalAssets > 1 then
        and_then (index sales (len sales - 2)) (\<lambda>s2.
        and_then (index totalAssets (len totalAssets - 1)) (\<lambda>t1.
        and_then (index sales (len sales - 3)) (\<lambda>s3.
        and_then (index totalAssets (len totalAssets - 2)) (\<lambda>t2.
          let currentRatio = fdiv (toFloat s2) (toFloat t1);
              previousRatio = fdiv (toFloat s3) (toFloat t2)
          in Inr (if fgt currentRatio previousRatio then score + 1 else score)))))
      else Inr score)"

definition calculateOperatingEfficiencyScore :: "doc \<Rightarrow> panic + int" where
  "calculateOperatingEfficiencyScore stock =
     (let score = 0;
          opm = getNestedArrayField stock [''profitLoss'', ''OPM %'']
      in
      and_then (opm_check opm score) (\<lambda>score.
      let sales = getNestedArrayField stock [''profitLoss'', ''Sales +''];
          totalAssets = getNestedArrayField stock [''balanceSheet'', ''Total Assets'']
      in asset_turnover_check sales totalAssets score))"

definition generateFScore :: "doc \<Rightarrow> panic + int" where
  "generateFScore stock =
     (let fScore = 0 in
      and_then (calculateProfitabilityScore stock) (\<lambda>p.
      and_then (calculateLeverageScore stock) (\<lambda>l.
      and_then (calculateOperatingEfficiencyScore stock) (\<lambda>e.
        Inr (fScore + p + l + e)))))"

section \<open>Notions used to state the properties\<close>

text \<open>Whether a value is a \<open>string\<close>.\<close>

fun is_string :: "bval \<Rightarrow> bool" where
  "is_string (VString s) = True"
| "is_string _ = False"


text \<open>A target record for the examples: a PE of 12, every other numeric field 0.\<close>

definition example_stock :: Stock where
  "example_stock =
     \<lparr>Name = ''ACME'', PE = Fin 12, MarketCap = Fin 0, DividendYield = Fin 0, ROCE = Fin 0,
      QuarterlySales = Fin 0, QuarterlyProfit = Fin 0, Cons' = [], Pros = []\<rparr>"




text \<open>A record whose history is too short: two periods of net profit, one of total assets.\<close>

definition short_history :: doc where
  "short_history =
     [(''profitLoss'', VMap [(''Net Profit'' @ nbsp @ ''+'', VArr [VString ''10'', VString ''12''])]),
      (''balanceSheet'', VMap [(''Total Assets'', VArr [VString ''100''])])]"

subsection \<open>Peer comparison, in the words of the specification\<close>









subsection \<open>Trend, in the words of the specification\<close>







text \<open>The contribution of a pair (current value, previous value).\<close>

definition trend_points :: "bval \<times> bval \<Rightarrow> int" where
  "trend_points vp =
     (if fgt (toFloat (fst vp)) (toFloat (snd vp)) then 5
      else if flt (toFloat (fst vp)) (toFloat (snd vp)) then - 5
      else 0)"





section \<open>Evaluation\<close>

lemmas ParseFloat_eval =
  ParseFloat_def special_def special_inf_def readFloat_def strip_sign_def lower_is_def
  byte_def is_digit_def digit_val_def float_value_def scale_def underscoreOK_def
  is_hexletter_def hexletter_val_def ascii_lower_def

lemmas f64_eval =
  fdiv_def fadd_def fsub_def fmul_def flt_def fle_def fgt_def fge_def feq_def Max_f64_def
  float64_of_int_def zero_of_def inf_of_def

section \<open>toFloat\<close>







section \<open>parseFloat\<close>

text \<open>
  C5. The parse used by the peer comparison does not tolerate thousands separators or
  percent suffixes: \<open>parseFloat\<close> passes the text to the parser as it is, so the peer
  field \<open>"1,234.5"\<close> yields 0.0 and not 1234.5, and \<open>"12.5%"\<close> yields 0.0 and not 0.125.
\<close>

theorem parseFloat_thousands_separator:
  "parseFloat (VString ''1,234.5'') = Fin 0 \<and> parseFloat (VString ''12.5%'') = Fin 0"
  by (simp add: parseFloat_def ParseFloat_eval f64_eval)

text \<open>What \<open>parseFloat\<close> does do: native numbers are kept, a parse failure gives 0.0.\<close>

lemma parseFloat_cases:
  "parseFloat (VFloat64 x) = x"
  "parseFloat (VInt n) = Fin (of_int n)"
  "parseFloat VNil = Fin 0"
  "snd (ParseFloat s) \<noteq> None \<Longrightarrow> parseFloat (VString s) = Fin 0"
  "ParseFloat s = (f, None) \<Longrightarrow> parseFloat (VString s) = f"
  by (auto simp: parseFloat_def float64_of_int_def split: prod.splits)

section \<open>Market-cap category\<close>

text \<open>
  C3. An unparsable market-cap string is not categorised as \<open>Unknown Category\<close>: the
  parse error is only logged, the value 0 that comes with it is compared against the
  thresholds, and the result is \<open>Small Cap\<close>.
\<close>

theorem getMarketCapCategory_unparsable:
  "snd (ParseFloat (ReplaceAll ''abc'' '','' [])) = Some ErrSyntax \<and>
   getMarketCapCategory ''abc'' = ''Small Cap''"
  by (simp add: getMarketCapCategory_def ParseFloat_eval f64_eval)

text \<open>The thresholds themselves, and the boundary cases, are as documented.\<close>

lemma getMarketCapCategory_thresholds:
  assumes "ParseFloat (ReplaceAll s '','' []) = (Fin x, None)"
  shows "getMarketCapCategory s =
           (if 20000 \<le> x then ''Large Cap''
            else if 5000 \<le> x then ''Mid Cap'' else ''Small Cap'')"
  using assms by (simp add: getMarketCapCategory_def f64_eval)

lemma getMarketCapCategory_boundaries:
  "getMarketCapCategory ''5000'' = ''Mid Cap''"
  "getMarketCapCategory ''19999.99'' = ''Mid Cap''"
  "getMarketCapCategory ''20000'' = ''Large Cap''"
  "getMarketCapCategory ''4999.99'' = ''Small Cap''"
  by (simp_all add: getMarketCapCategory_def ParseFloat_eval f64_eval)

text \<open>\<open>Unknown Category\<close> is what a NaN gets, the one value that fails all comparisons.\<close>

lemma getMarketCapCategory_NaN: "getMarketCapCategory ''NaN'' = ''Unknown Category''"
  by (simp add: getMarketCapCategory_def ParseFloat_eval f64_eval)

section \<open>Peer comparison: too few records\<close>

text \<open>
  C7. For every array with fewer than 2 entries, whatever the entries are,
  \<open>compareWithPeers\<close> returns exactly 0.0 and does not panic.
\<close>

theorem compareWithPeers_few:
  "length arr < 2 \<Longrightarrow> compareWithPeers stock (VArr arr) = Inr (Fin 0)"
  by (simp add: compareWithPeers_def len_def)

theorem compareWithPeers_few_witness:
  "length [VString ''x''] < 2 \<and>
   compareWithPeers example_stock (VArr [VString ''x'']) = Inr (Fin 0)"
  using compareWithPeers_few [of "[VString ''x'']" example_stock] by simp

section \<open>Nested lookup of a label that ends in a plus sign\<close>

declare getNestedArrayField.simps [simp del]

lemmas TrimSpace_eval =
  normalize_key_def TrimSpace_def leading_space_def trailing_space_def space_encodings_def
  nbsp_def

lemma getNestedArrayField_two:
  "getNestedArrayField stock [sec, key] =
     (case index_map stock (normalize_key sec) of
        VMap section \<Rightarrow>
          (case index_map section (normalize_key key) of VArr result \<Rightarrow> result | _ \<Rightarrow> [])
      | _ \<Rightarrow> [])"
  by (simp add: getNestedArrayField.simps split: bval.splits)

lemma normalize_section:
  "normalize_key ''profitLoss'' = ''profitLoss''"
  "normalize_key ''balanceSheet'' = ''balanceSheet''"
  "normalize_key ''cashFlows'' = ''cashFlows''"
  by (simp_all add: TrimSpace_eval)

text \<open>The plain-space spelling of a label is rewritten to the stored spelling.\<close>

lemma normalize_plain:
  "normalize_key ''Net Profit +'' = ''Net Profit'' @ nbsp @ ''+''"
  "normalize_key ''Sales +'' = ''Sales'' @ nbsp @ ''+''"
  "normalize_key ''Cash from Operating Activity +'' =
     ''Cash from Operating Activity'' @ nbsp @ ''+''"
  "normalize_key ''Borrowings +'' = ''Borrowings'' @ nbsp @ ''+''"
  "normalize_key ''Other Assets +'' = ''Other Assets'' @ nbsp @ ''+''"
  "normalize_key ''Other Liabilities +'' = ''Other Liabilities'' @ nbsp @ ''+''"
  by (simp_all add: TrimSpace_eval)


lemma normalize_other:
  "normalize_key ''Total Assets'' = ''Total Assets''"
  "normalize_key ''Equity Capital'' = ''Equity Capital''"
  "normalize_key ''OPM %'' = ''OPM %''"
  by (simp_all add: TrimSpace_eval)





section \<open>F-score: the checks\<close>

lemma and_then_Inr: "and_then (Inr v) f = f v"
  by (simp add: and_then_def)

lemma and_then_Inl: "and_then (Inl e) f = Inl e"
  by (simp add: and_then_def)

lemma index_in_range: "0 \<le> i \<Longrightarrow> i < len a \<Longrightarrow> index a i = Inr (a ! nat i)"
  by (simp add: index_def)

text \<open>A guarded check never panics: its guard puts every index it uses in range.\<close>

lemma cash_flow_check_total:
  "cash_flow_check c s = Inr s \<or> cash_flow_check c s = Inr (s + 1)"
  by (simp add: cash_flow_check_def and_then_Inr index_in_range Let_def)

lemma cash_vs_profit_check_total:
  "cash_vs_profit_check c np s = Inr s \<or> cash_vs_profit_check c np s = Inr (s + 1)"
  by (simp add: cash_vs_profit_check_def and_then_Inr index_in_range Let_def)

lemma debt_ratio_check_total:
  "debt_ratio_check b t s = Inr s \<or> debt_ratio_check b t s = Inr (s + 1)"
  by (simp add: debt_ratio_check_def and_then_Inr index_in_range Let_def)

lemma current_ratio_check_total:
  "current_ratio_check a l s = Inr s \<or> current_ratio_check a l s = Inr (s + 1)"
  by (simp add: current_ratio_check_def and_then_Inr index_in_range Let_def)

lemma equity_check_total:
  "equity_check e s = Inr s \<or> equity_check e s = Inr (s + 1)"
  by (simp add: equity_check_def and_then_Inr index_in_range Let_def)

lemma opm_check_total:
  "opm_check e s = Inr s \<or> opm_check e s = Inr (s + 1)"
  by (simp add: opm_check_def and_then_Inr index_in_range Let_def)

lemma asset_turnover_check_total:
  "asset_turnover_check a t s = Inr s \<or> asset_turnover_check a t s = Inr (s + 1)"
  by (simp add: asset_turnover_check_def and_then_Inr index_in_range Let_def)

text \<open>
  The guard of check 1.1 is too weak for the index \<open>len - 2\<close>, so the check can panic; when
  it returns, it adds at most 1.
\<close>

lemma roa_positive_check_result:
  "roa_positive_check np ta s = Inr s' \<Longrightarrow> s' = s \<or> s' = s + 1"
  by (auto simp: roa_positive_check_def and_then_def Let_def split: if_splits sum.splits)

text \<open>The unguarded check 1.3 panics whenever a sequence is shorter than its indices need.\<close>

lemma increaseInRoa_short:
  assumes "len np < 3 \<or> len ta < 2"
  shows "\<exists>e. increaseInRoa np ta = Inl e"
  using assms
  by (auto simp: increaseInRoa_def and_then_def index_def Let_def split: sum.splits)

section \<open>F-score: the sub-scores\<close>

text \<open>The leverage score always returns, with a value from 0 to 3.\<close>

lemma calculateLeverageScore_range:
  "\<exists>n. calculateLeverageScore stock = Inr n \<and> 0 \<le> n \<and> n \<le> 3"
proof -
  define b where "b = getNestedArrayField stock [''balanceSheet'', ''Borrowings +'']"
  define t where "t = getNestedArrayField stock [''balanceSheet'', ''Total Assets'']"
  define a where "a = getNestedArrayField stock [''balanceSheet'', ''Other Assets +'']"
  define l where "l = getNestedArrayField stock [''balanceSheet'', ''Other Liabilities +'']"
  define e where "e = getNestedArrayField stock [''balanceSheet'', ''Equity Capital'']"
  obtain s1 where 1: "debt_ratio_check b t 0 = Inr s1" "0 \<le> s1" "s1 \<le> 1"
    using debt_ratio_check_total [of b t 0] by auto
  obtain s2 where 2: "current_ratio_check a l s1 = Inr s2" "s1 \<le> s2" "s2 \<le> s1 + 1"
    using current_ratio_check_total [of a l s1] by auto
  obtain s3 where 3: "equity_check e s2 = Inr s3" "s2 \<le> s3" "s3 \<le> s2 + 1"
    using equity_check_total [of e s2] by auto
  have "calculateLeverageScore stock = Inr s3"
    unfolding calculateLeverageScore_def Let_def
    by (simp add: and_then_Inr 1 2 3 flip: b_def t_def a_def l_def e_def)
  with 1 2 3 show ?thesis by auto
qed

text \<open>The operating-efficiency score always returns, with a value from 0 to 2.\<close>

lemma calculateOperatingEfficiencyScore_range:
  "\<exists>n. calculateOperatingEfficiencyScore stock = Inr n \<and> 0 \<le> n \<and> n \<le> 2"
proof -
  define opm where "opm = getNestedArrayField stock [''profitLoss'', ''OPM %'']"
  define sales where "sales = getNestedArrayField stock [''profitLoss'', ''Sales +'']"
  define t where "t = getNestedArrayField stock [''balanceSheet'', ''Total Assets'']"
  obtain s1 where 1: "opm_check opm 0 = Inr s1" "0 \<le> s1" "s1 \<le> 1"
    using opm_check_total [of opm 0] by auto
  obtain s2 where 2: "asset_turnover_check sales t s1 = Inr s2" "s1 \<le> s2" "s2 \<le> s1 + 1"
    using asset_turnover_check_total [of sales t s1] by auto
  have "calculateOperatingEfficiencyScore stock = Inr s2"
    unfolding calculateOperatingEfficiencyScore_def Let_def
    by (simp add: and_then_Inr 1 2 flip: opm_def sales_def t_def)
  with 1 2 show ?thesis by auto
qed

text \<open>The profitability score is between 0 and 4 when it returns.\<close>

lemma calculateProfitabilityScore_unfold:
  "calculateProfitabilityScore stock =
     and_then
       (roa_positive_check (getNestedArrayField stock [''profitLoss'', ''Net Profit +''])
          (getNestedArrayField stock [''balanceSheet'', ''Total Assets'']) 0)
       (\<lambda>score.
     and_then
       (cash_flow_check
          (getNestedArrayField stock [''cashFlows'', ''Cash from Operating Activity +'']) score)
       (\<lambda>score.
     and_then
       (increaseInRoa (getNestedArrayField stock [''profitLoss'', ''Net Profit +''])
          (getNestedArrayField stock [''balanceSheet'', ''Total Assets'']))
       (\<lambda>increased.
          cash_vs_profit_check
            (getNestedArrayField stock [''cashFlows'', ''Cash from Operating Activity +''])
            (getNestedArrayField stock [''profitLoss'', ''Net Profit +''])
            (if increased then score + 1 else score))))"
  unfolding calculateProfitabilityScore_def Let_def ..

lemma calculateProfitabilityScore_range:
  assumes "calculateProfitabilityScore stock = Inr n"
  shows "0 \<le> n \<and> n \<le> 4"
proof -
  define np where "np = getNestedArrayField stock [''profitLoss'', ''Net Profit +'']"
  define ta where "ta = getNestedArrayField stock [''balanceSheet'', ''Total Assets'']"
  define cf where
    "cf = getNestedArrayField stock [''cashFlows'', ''Cash from Operating Activity +'']"
  from assms have run:
    "and_then (roa_positive_check np ta 0) (\<lambda>score.
       and_then (cash_flow_check cf score) (\<lambda>score.
       and_then (increaseInRoa np ta) (\<lambda>increased.
         cash_vs_profit_check cf np (if increased then score + 1 else score)))) = Inr n"
    unfolding calculateProfitabilityScore_unfold np_def ta_def cf_def .
  then obtain s1 where 1: "roa_positive_check np ta 0 = Inr s1"
    by (cases "roa_positive_check np ta 0") (simp_all add: and_then_def)
  then have b1: "0 \<le> s1" "s1 \<le> 1"
    using roa_positive_check_result [OF 1] by auto
  obtain s2 where 2: "cash_flow_check cf s1 = Inr s2" "s1 \<le> s2" "s2 \<le> s1 + 1"
    using cash_flow_check_total [of cf s1] by auto
  from run 1 2 obtain inc where 3: "increaseInRoa np ta = Inr inc"
    by (cases "increaseInRoa np ta") (simp_all add: and_then_def)
  define s3 where "s3 = (if inc then s2 + 1 else s2)"
  have b3: "s2 \<le> s3" "s3 \<le> s2 + 1"
    by (simp_all add: s3_def)
  obtain s4 where 4: "cash_vs_profit_check cf np s3 = Inr s4" "s3 \<le> s4" "s4 \<le> s3 + 1"
    using cash_vs_profit_check_total [of cf np s3] by auto
  from run 1 2 3 4 have "n = s4"
    by (simp add: and_then_Inr s3_def)
  with b1 2 b3 4 show ?thesis by auto
qed

text \<open>
  The profitability score panics, and with it the F-score, on every record with fewer than
  three entries of net profit or fewer than two entries of total assets.
\<close>

lemma calculateProfitabilityScore_short:
  assumes "len (getNestedArrayField stock [''profitLoss'', ''Net Profit +'']) < 3 \<or>
           len (getNestedArrayField stock [''balanceSheet'', ''Total Assets'']) < 2"
  shows "\<exists>e. calculateProfitabilityScore stock = Inl e"
proof -
  define np where "np = getNestedArrayField stock [''profitLoss'', ''Net Profit +'']"
  define ta where "ta = getNestedArrayField stock [''balanceSheet'', ''Total Assets'']"
  define cf where
    "cf = getNestedArrayField stock [''cashFlows'', ''Cash from Operating Activity +'']"
  from assms obtain e where e: "increaseInRoa np ta = Inl e"
    using increaseInRoa_short [of np ta] by (auto simp: np_def ta_def)
  have eq: "calculateProfitabilityScore stock =
    and_then (roa_positive_check np ta 0) (\<lambda>score.
       and_then (cash_flow_check cf score) (\<lambda>score.
       and_then (increaseInRoa np ta) (\<lambda>increased.
         cash_vs_profit_check cf np (if increased then score + 1 else score))))"
    unfolding calculateProfitabilityScore_unfold np_def ta_def cf_def ..
  show ?thesis
  proof (cases "roa_positive_check np ta 0")
    case (Inl x)
    then show ?thesis by (simp add: eq and_then_Inl)
  next
    case (Inr s1)
    obtain s2 where "cash_flow_check cf s1 = Inr s2"
      using cash_flow_check_total [of cf s1] by auto
    with Inr e show ?thesis by (simp add: eq and_then_Inr and_then_Inl)
  qed
qed

lemma generateFScore_short:
  assumes "len (getNestedArrayField stock [''profitLoss'', ''Net Profit +'']) < 3 \<or>
           len (getNestedArrayField stock [''balanceSheet'', ''Total Assets'']) < 2"
  shows "\<exists>e. generateFScore stock = Inl e"
  using calculateProfitabilityScore_short [OF assms]
  by (auto simp: generateFScore_def and_then_Inl)

text \<open>When the F-score returns, it is the sum of the three sub-scores and lies in 0 to 9.\<close>

lemma generateFScore_range:
  assumes "generateFScore stock = Inr n"
  shows "0 \<le> n \<and> n \<le> 9"
proof -
  obtain l where l: "calculateLeverageScore stock = Inr l" "0 \<le> l" "l \<le> 3"
    using calculateLeverageScore_range by blast
  obtain e where e: "calculateOperatingEfficiencyScore stock = Inr e" "0 \<le> e" "e \<le> 2"
    using calculateOperatingEfficiencyScore_range by blast
  from assms obtain p where p: "calculateProfitabilityScore stock = Inr p"
    by (cases "calculateProfitabilityScore stock")
      (simp_all add: generateFScore_def and_then_def)
  from calculateProfitabilityScore_range [OF p] have bp: "0 \<le> p" "p \<le> 4"
    by auto
  from assms p l e have "n = p + l + e"
    by (simp add: generateFScore_def and_then_Inr)
  with bp l e show ?thesis by auto
qed

section \<open>F-score: records without enough history\<close>

lemma getNestedArrayField_empty: "getNestedArrayField [] [sec, key] = []"
  by (simp add: getNestedArrayField_two index_map_def)

text \<open>
  C2. On a record without any time series, the F-score does not score the profitability
  checks as 0: the year-over-year check indexes the empty net-profit sequence at \<open>len - 2\<close>,
  which is \<open>-2\<close>, and the calculator panics.
\<close>

theorem generateFScore_no_history:
  "calculateProfitabilityScore [] = Inl (IndexOutOfRange (- 2)) \<and>
   generateFScore [] = Inl (IndexOutOfRange (- 2))"
  by (simp add: generateFScore_def calculateProfitabilityScore_unfold getNestedArrayField_empty
      roa_positive_check_def cash_flow_check_def increaseInRoa_def and_then_def index_def
      len_def)

lemma short_history_lookup:
  "getNestedArrayField short_history [''profitLoss'', ''Net Profit +''] =
     [VString ''10'', VString ''12'']"
  "getNestedArrayField short_history [''balanceSheet'', ''Total Assets''] = [VString ''100'']"
  "getNestedArrayField short_history [''cashFlows'', ''Cash from Operating Activity +''] = []"
  by (simp_all add: getNestedArrayField_two normalize_section normalize_plain normalize_other
      short_history_def index_map_def nbsp_def)

text \<open>
  C6. The F-score is not an integer in 0 to 9 for every record: on a record with two periods
  of net profit and one of total assets the first check passes its guard and scores, and
  the year-over-year check then indexes the net-profit sequence at \<open>-1\<close> and panics.
\<close>

theorem generateFScore_short_history:
  "generateFScore short_history = Inl (IndexOutOfRange (- 1))"
  by (simp add: generateFScore_def calculateProfitabilityScore_unfold short_history_lookup
      roa_positive_check_def cash_flow_check_def increaseInRoa_def and_then_def index_def
      len_def assert_string_def)

section \<open>Peer comparison: the score\<close>


















text \<open>An element of the array that is not a document makes the comparison panic.\<close>

lemma compareWithPeers_not_a_record:
  "compareWithPeers stock (VArr [VString ''x'', VMap []]) = Inl InterfaceConversion"
  by (simp add: compareWithPeers_def len_def and_then_def assert_M_def)

section \<open>Trend: the score\<close>









text \<open>
  Two values that are not strings both read as 0, so the pair is counted as a comparison
  and contributes nothing.
\<close>

lemma trend_points_native: "\<not> is_string v \<Longrightarrow> \<not> is_string pv \<Longrightarrow> trend_points (v, pv) = 0"
  by (cases v; cases pv) (simp_all add: trend_points_def toFloat_def f64_eval)






end
